theory Spec2Isabelle
  imports Main "HOL-Library.Word" "HOL-Library.Signed_Division" "HOL-Library.Sublist"
begin

unbundle bit_operations_syntax

section \<open>Package constant: the tagged values\<close>

text \<open>
  The Go package \<^verbatim>\<open>constant\<close> represents a value as an interface with eight dynamic
  types. An interface can also be \<^verbatim>\<open>nil\<close> (no dynamic type at all), which is not the
  same as the singleton \<^verbatim>\<open>Null\<close>: the constructor \<open>NilValue\<close> stands for it.

  Machine integers are 64-bit words (\<open>+\<close> and \<open>*\<close> wrap, \<open>sint\<close> reads two's
  complement), \<^verbatim>\<open>*big.Int\<close> is \<open>int\<close>. A \<^verbatim>\<open>float64\<close> is carried as its IEEE-754 bit
  pattern and a \<^verbatim>\<open>time.Time\<close> as its instant in nanoseconds. IEEE-754 arithmetic, number
  formatting and the parsing of floats and dates belong to the Go library and are not part of
  this embedding: a path of the code that needs one of them ends in the
  outcome \<open>NotEmbedded\<close>.
\<close>

type_synonym int64 = "64 word"
type_synonym float64 = "64 word"

datatype Kind = KindNull | KindBool | KindBytes | KindInt | KindFloat
  | KindTimestamp | KindInterval | KindArray

datatype Value =
    NilValue
  | nullVal
  | boolVal bool
  | bytesVal string
  | intVal int
  | int64Val int64
  | floatVal float64
  | timestampVal int
  | intervalVal int64
  | arrayVal "Value list"

text \<open>An argument of a formatted message (\<^verbatim>\<open>fmt.Errorf\<close>); rendering is left to \<^verbatim>\<open>fmt\<close>.\<close>

datatype fmt_arg = ArgInt int | ArgStr string | ArgKind Kind | ArgValue Value

text \<open>
  Every error value of the packages, and the ways of not returning one:
  \<open>Panic\<close> is a Go panic (an explicit \<^verbatim>\<open>panic("unimplemented")\<close>, or the runtime's
  nil dereference and index checks), \<open>NoReturn\<close> is a loop that never ends, and
  \<open>NotEmbedded\<close> marks a call into the library left out above.
\<close>

datatype error =
    ConvertError Value string
  | CompareError Value Value
  | BinaryOpError string Value Value "error option"
  | UnaryOpError string Value "error option"
  | ErrDivideByZero
  | Errorf string "fmt_arg list"
  | Panic string
  | NoReturn
  | NotEmbedded string

definition nilDeref :: error where
  "nilDeref = Panic ''invalid memory address or nil pointer dereference''"

definition Null :: Value where
  "Null = nullVal"

text \<open>\<^verbatim>\<open>v.Kind()\<close>: a method call on the nil interface panics, so the kind is optional (the method is named \<open>KindOf\<close> here, next to the type \<open>Kind\<close>).\<close>

fun KindOf :: "Value \<Rightarrow> Kind option" where
  "KindOf NilValue = None"
| "KindOf nullVal = Some KindNull"
| "KindOf (boolVal _) = Some KindBool"
| "KindOf (bytesVal _) = Some KindBytes"
| "KindOf (intVal _) = Some KindInt"
| "KindOf (int64Val _) = Some KindInt"
| "KindOf (floatVal _) = Some KindFloat"
| "KindOf (timestampVal _) = Some KindTimestamp"
| "KindOf (intervalVal _) = Some KindInterval"
| "KindOf (arrayVal _) = Some KindArray"

definition MinInt64 :: int where
  "MinInt64 = - (2 ^ 63)"

definition MaxInt64 :: int where
  "MaxInt64 = 2 ^ 63 - 1"

text \<open>\<^verbatim>\<open>(*big.Int).IsInt64\<close> and \<^verbatim>\<open>(*big.Int).Int64\<close>.\<close>

definition big_IsInt64 :: "int \<Rightarrow> bool" where
  "big_IsInt64 i \<longleftrightarrow> MinInt64 \<le> i \<and> i \<le> MaxInt64"

definition big_Int64 :: "int \<Rightarrow> int64" where
  "big_Int64 i = word_of_int i"

definition MakeBool :: "bool \<Rightarrow> Value" where
  "MakeBool b = boolVal b"

definition MakeBytes :: "string \<Rightarrow> Value" where
  "MakeBytes b = bytesVal b"

definition MakeInt64 :: "int64 \<Rightarrow> Value" where
  "MakeInt64 i = int64Val i"

definition MakeInt :: "int \<Rightarrow> Value" where
  "MakeInt i = (if big_IsInt64 i then int64Val (big_Int64 i) else intVal i)"

definition MakeFloat :: "float64 \<Rightarrow> Value" where
  "MakeFloat f = floatVal f"

definition MakeTimestamp :: "int \<Rightarrow> Value" where
  "MakeTimestamp t = timestampVal t"

definition MakeInterval :: "int64 \<Rightarrow> Value" where
  "MakeInterval d = intervalVal d"

text \<open>
  \<^verbatim>\<open>MakeArray\<close>: for an empty argument the code returns the composite literal
  \<^verbatim>\<open>arrayVal{nil}\<close>, a slice of length one whose element is the nil interface.
\<close>

definition MakeArray :: "Value list \<Rightarrow> Value" where
  "MakeArray a = (if length a = 0 then arrayVal [NilValue] else arrayVal a)"

fun AsBool :: "Value \<Rightarrow> error + bool" where
  "AsBool (boolVal b) = Inr b"
| "AsBool v = Inl (ConvertError v ''bool'')"

fun AsBytes :: "Value \<Rightarrow> error + string" where
  "AsBytes (bytesVal b) = Inr b"
| "AsBytes v = Inl (ConvertError v ''[]byte'')"

fun IsInt64 :: "Value \<Rightarrow> bool" where
  "IsInt64 (intVal i) = big_IsInt64 i"
| "IsInt64 (int64Val _) = True"
| "IsInt64 _ = False"

fun AsInt64 :: "Value \<Rightarrow> error + int64" where
  "AsInt64 (intVal i) =
     (if \<not> big_IsInt64 i then Inl (ConvertError (intVal i) ''int64'') else Inr (big_Int64 i))"
| "AsInt64 (int64Val i) = Inr i"
| "AsInt64 v = Inl (ConvertError v ''int64'')"

fun AsInt :: "Value \<Rightarrow> error + int" where
  "AsInt (intVal i) = Inr i"
| "AsInt (int64Val i) = Inr (sint i)"
| "AsInt v = Inl (ConvertError v ''*big.Int'')"

text \<open>\<^verbatim>\<open>AsFloat\<close> converts both integer forms by rounding, which is left to the library.\<close>

fun AsFloat :: "Value \<Rightarrow> error + float64" where
  "AsFloat (floatVal f) = Inr f"
| "AsFloat (intVal i) = Inl (NotEmbedded ''big.Float.Float64'')"
| "AsFloat (int64Val i) = Inl (NotEmbedded ''float64(int64)'')"
| "AsFloat v = Inl (ConvertError v ''float64'')"

fun AsTimestamp :: "Value \<Rightarrow> error + int" where
  "AsTimestamp (timestampVal t) = Inr t"
| "AsTimestamp v = Inl (ConvertError v ''time.Time'')"

fun AsInterval :: "Value \<Rightarrow> error + int64" where
  "AsInterval (intervalVal d) = Inr d"
| "AsInterval v = Inl (ConvertError v ''time.Duration'')"

fun AsArray :: "Value \<Rightarrow> error + Value list" where
  "AsArray (arrayVal a) = Inr a"
| "AsArray v = Inl (ConvertError v ''[]Value'')"

text \<open>\<^verbatim>\<open>numberCmp\<close> at the integer types, and \<^verbatim>\<open>bytes.Compare\<close>.\<close>

definition numberCmp :: "int \<Rightarrow> int \<Rightarrow> int" where
  "numberCmp a b = (if a < b then - 1 else if a > b then 1 else 0)"

fun bytes_Compare :: "string \<Rightarrow> string \<Rightarrow> int" where
  "bytes_Compare [] [] = 0"
| "bytes_Compare [] (y # ys) = - 1"
| "bytes_Compare (x # xs) [] = 1"
| "bytes_Compare (x # xs) (y # ys) =
     (if (of_char x :: nat) < of_char y then - 1
      else if (of_char x :: nat) > of_char y then 1
      else bytes_Compare xs ys)"

text \<open>
  The sign of a \<^verbatim>\<open>float64\<close> against zero, read off the bit pattern: a NaN and both
  zeros are neither below nor above zero.
\<close>

definition float_sign :: "float64 \<Rightarrow> int" where
  "float_sign f =
     (let mag = take_bit 63 (uint f) in
      if mag = 0 \<or> mag > 2047 * 2 ^ 52 then 0
      else if bit f 63 then - 1 else 1)"

fun Sign :: "Value \<Rightarrow> int" where
  "Sign (intVal i) = sgn i"
| "Sign (int64Val i) = numberCmp (sint i) 0"
| "Sign (floatVal f) = float_sign f"
| "Sign (intervalVal d) = numberCmp (sint d) 0"
| "Sign _ = 1"


subsection \<open>Comparison\<close>

text \<open>
  The deferred function of \<^verbatim>\<open>Cmp\<close> replaces every error that is not already a
  \<^verbatim>\<open>*CompareError\<close> by one on the two operands. A panic is not an error value and
  passes through.
\<close>

definition wrapCompare :: "Value \<Rightarrow> Value \<Rightarrow> error + 'a \<Rightarrow> error + 'a" where
  "wrapCompare a b r =
     (case r of
        Inr x \<Rightarrow> Inr x
      | Inl (CompareError l r') \<Rightarrow> Inl (CompareError l r')
      | Inl (Panic m) \<Rightarrow> Inl (Panic m)
      | Inl NoReturn \<Rightarrow> Inl NoReturn
      | Inl (NotEmbedded m) \<Rightarrow> Inl (NotEmbedded m)
      | Inl _ \<Rightarrow> Inl (CompareError a b))"

text \<open>
  \<^verbatim>\<open>Cmp\<close> returns the ordering and the flag \<^verbatim>\<open>isNull\<close>. \<open>Cmp_loop\<close> is the loop of
  the array case over the common prefix; \<open>la\<close> and \<open>lb\<close> are the two lengths compared
  after it.
\<close>

fun Cmp :: "Value \<Rightarrow> Value \<Rightarrow> error + (int \<times> bool)"
  and Cmp_loop :: "Value list \<Rightarrow> Value list \<Rightarrow> nat \<Rightarrow> nat \<Rightarrow> error + (int \<times> bool)" where
  "Cmp a b =
     (if a = nullVal \<or> b = nullVal then Inr (0, True)
      else wrapCompare a b
        (case a of
           boolVal x \<Rightarrow>
             (case AsBool b of
                Inl e \<Rightarrow> Inl e
              | Inr y \<Rightarrow> if x = y then Inr (0, False)
                         else if \<not> x \<and> y then Inr (- 1, False) else Inr (1, False))
         | bytesVal x \<Rightarrow>
             (case AsBytes b of Inl e \<Rightarrow> Inl e | Inr y \<Rightarrow> Inr (bytes_Compare x y, False))
         | intVal x \<Rightarrow>
             (case KindOf b of
                None \<Rightarrow> Inl nilDeref
              | Some KindInt \<Rightarrow>
                  (case AsInt b of Inl e \<Rightarrow> Inl e | Inr y \<Rightarrow> Inr (numberCmp x y, False))
              | Some KindFloat \<Rightarrow> Inl (NotEmbedded ''big.Float.Float64'')
              | Some _ \<Rightarrow> Inl (CompareError a b))
         | int64Val x \<Rightarrow>
             (if IsInt64 b then
                (case AsInt64 b of
                   Inl e \<Rightarrow> Inl e
                 | Inr y \<Rightarrow> Inr (numberCmp (sint x) (sint y), False))
              else
                (case KindOf b of
                   None \<Rightarrow> Inl nilDeref
                 | Some KindInt \<Rightarrow>
                     (case AsInt b of
                        Inl e \<Rightarrow> Inl e
                      | Inr y \<Rightarrow> Inr (numberCmp (sint x) y, False))
                 | Some KindFloat \<Rightarrow> Inl (NotEmbedded ''float64(int64)'')
                 | Some _ \<Rightarrow> Inl (CompareError a b)))
         | floatVal x \<Rightarrow>
             (case AsFloat b of
                Inl e \<Rightarrow> Inl e
              | Inr y \<Rightarrow> Inl (NotEmbedded ''float64 comparison''))
         | timestampVal x \<Rightarrow>
             (case AsTimestamp b of Inl e \<Rightarrow> Inl e | Inr y \<Rightarrow> Inr (numberCmp x y, False))
         | intervalVal x \<Rightarrow>
             (case AsInterval b of
                Inl e \<Rightarrow> Inl e
              | Inr y \<Rightarrow> Inr (numberCmp (sint x) (sint y), False))
         | arrayVal xs \<Rightarrow>
             (case AsArray b of
                Inl e \<Rightarrow> Inl e
              | Inr ys \<Rightarrow> Cmp_loop xs ys (length xs) (length ys))
         | _ \<Rightarrow> Inl (CompareError a b)))"
| "Cmp_loop (x # xs) (y # ys) la lb =
     (case Cmp x y of
        Inl e \<Rightarrow> Inl e
      | Inr (r, isNull) \<Rightarrow>
          if isNull then Inr (0, True)
          else if r \<noteq> 0 then Inr (r, False)
          else Cmp_loop xs ys la lb)"
| "Cmp_loop xs ys la lb = Inr (numberCmp (int la) (int lb), False)"

declare Cmp.simps(1) [simp del]

subsection \<open>Arithmetic\<close>

text \<open>
  Go's \<^verbatim>\<open>/\<close> and \<^verbatim>\<open>%\<close> on \<^verbatim>\<open>int64\<close> truncate towards zero, and the quotient of the
  most negative value by \<open>-1\<close> wraps to the most negative value. Both are only called
  with a divisor that the code has already found nonzero.
\<close>

definition quo64 :: "int64 \<Rightarrow> int64 \<Rightarrow> int64" where
  "quo64 a b = word_of_int (sint a sdiv sint b)"

definition rem64 :: "int64 \<Rightarrow> int64 \<Rightarrow> int64" where
  "rem64 a b = word_of_int (sint a smod sint b)"

text \<open>\<^verbatim>\<open>(*big.Int).Div\<close> and \<^verbatim>\<open>Mod\<close> are Euclidean: the remainder is never negative.\<close>

definition big_Mod :: "int \<Rightarrow> int \<Rightarrow> int" where
  "big_Mod a b = a mod \<bar>b\<bar>"

definition big_Div :: "int \<Rightarrow> int \<Rightarrow> int" where
  "big_Div a b = (if b < 0 then - (a div (- b)) else a div b)"

definition wrapBinary :: "string \<Rightarrow> Value \<Rightarrow> Value \<Rightarrow> error + 'a \<Rightarrow> error + 'a" where
  "wrapBinary op a b r =
     (case r of
        Inr x \<Rightarrow> Inr x
      | Inl (BinaryOpError op' l r' c) \<Rightarrow> Inl (BinaryOpError op' l r' c)
      | Inl (Panic m) \<Rightarrow> Inl (Panic m)
      | Inl NoReturn \<Rightarrow> Inl NoReturn
      | Inl (NotEmbedded m) \<Rightarrow> Inl (NotEmbedded m)
      | Inl e \<Rightarrow> Inl (BinaryOpError op a b (Some e)))"

definition MakeBinaryOpError :: "string \<Rightarrow> Value \<Rightarrow> Value \<Rightarrow> error option \<Rightarrow> error" where
  "MakeBinaryOpError op left right cause = BinaryOpError op left right cause"

text \<open>
  The \<^verbatim>\<open>int64Val\<close> case of \<^verbatim>\<open>Add\<close>, \<^verbatim>\<open>Sub\<close> and \<^verbatim>\<open>Mul\<close> first tries the 64-bit
  operation and returns from inside the \<^verbatim>\<open>if IsInt64(b)\<close> block when its overflow test
  passes; otherwise control falls through to the switch on \<^verbatim>\<open>b.Kind()\<close>. The three
  functions \<open>add_fast\<close>, \<open>sub_fast\<close> and \<open>mul_fast\<close> are these blocks: \<open>Some\<close> is a
  return, \<open>None\<close> the fall-through.
\<close>

definition add_fast :: "int64 \<Rightarrow> Value \<Rightarrow> (error + Value) option" where
  "add_fast a b =
     (if IsInt64 b then
        (case AsInt64 b of
           Inl e \<Rightarrow> Some (Inl e)
         | Inr b' \<Rightarrow>
             (let sum = a + b' in
              if (sint sum > sint a) = (sint b' > 0) then Some (Inr (int64Val sum)) else None))
      else None)"

definition sub_fast :: "int64 \<Rightarrow> Value \<Rightarrow> (error + Value) option" where
  "sub_fast a b =
     (if IsInt64 b then
        (case AsInt64 b of
           Inl e \<Rightarrow> Some (Inl e)
         | Inr b' \<Rightarrow>
             (let sum = a + b' in
              if (sint sum > sint a) = (sint b' < 0) then Some (Inr (int64Val sum)) else None))
      else None)"

definition mul_fast :: "int64 \<Rightarrow> Value \<Rightarrow> (error + Value) option" where
  "mul_fast a b =
     (if IsInt64 b then
        (case AsInt64 b of
           Inl e \<Rightarrow> Some (Inl e)
         | Inr b' \<Rightarrow>
             (let result = a * b' in
              if a = 0 \<or> b' = 0 \<or> a = 1 \<or> b' = 1 \<or> quo64 result a = b'
              then Some (Inr (int64Val result)) else None))
      else None)"

definition Add :: "Value \<Rightarrow> Value \<Rightarrow> error + Value" where
  "Add a b =
     (if a = nullVal \<or> b = nullVal then Inr nullVal
      else wrapBinary ''add'' a b
        (case a of
           intVal x \<Rightarrow>
             (case KindOf b of
                None \<Rightarrow> Inl nilDeref
              | Some KindInt \<Rightarrow>
                  (case AsInt b of Inl e \<Rightarrow> Inl e | Inr y \<Rightarrow> Inr (intVal (x + y)))
              | Some KindFloat \<Rightarrow> Inl (NotEmbedded ''big.Float.Float64'')
              | Some _ \<Rightarrow> Inl (MakeBinaryOpError ''add'' a b None))
         | int64Val x \<Rightarrow>
             (case add_fast x b of
                Some r \<Rightarrow> r
              | None \<Rightarrow>
                  (case KindOf b of
                     None \<Rightarrow> Inl nilDeref
                   | Some KindInt \<Rightarrow>
                       (case AsInt b of Inl e \<Rightarrow> Inl e | Inr y \<Rightarrow> Inr (intVal (sint x + y)))
                   | Some KindFloat \<Rightarrow> Inl (NotEmbedded ''float64(int64)'')
                   | Some _ \<Rightarrow> Inl (MakeBinaryOpError ''add'' a b None)))
         | floatVal x \<Rightarrow>
             (case AsFloat b of Inl e \<Rightarrow> Inl e | Inr y \<Rightarrow> Inl (NotEmbedded ''float64 +''))
         | timestampVal t \<Rightarrow>
             (case AsInterval b of Inl e \<Rightarrow> Inl e | Inr d \<Rightarrow> Inr (timestampVal (t + sint d)))
         | intervalVal d \<Rightarrow>
             (case b of
                timestampVal t \<Rightarrow> Inr (timestampVal (t + sint d))
              | _ \<Rightarrow>
                  (case AsInterval b of Inl e \<Rightarrow> Inl e | Inr d' \<Rightarrow> Inr (intervalVal (d + d'))))
         | _ \<Rightarrow> Inl (MakeBinaryOpError ''add'' a b None)))"

definition Sub :: "Value \<Rightarrow> Value \<Rightarrow> error + Value" where
  "Sub a b =
     (if a = nullVal \<or> b = nullVal then Inr nullVal
      else wrapBinary ''sub'' a b
        (case a of
           intVal x \<Rightarrow>
             (case KindOf b of
                None \<Rightarrow> Inl nilDeref
              | Some KindInt \<Rightarrow>
                  (case AsInt b of Inl e \<Rightarrow> Inl e | Inr y \<Rightarrow> Inr (intVal (x - y)))
              | Some KindFloat \<Rightarrow> Inl (NotEmbedded ''big.Float.Float64'')
              | Some _ \<Rightarrow> Inl (MakeBinaryOpError ''sub'' a b None))
         | int64Val x \<Rightarrow>
             (case sub_fast x b of
                Some r \<Rightarrow> r
              | None \<Rightarrow>
                  (case KindOf b of
                     None \<Rightarrow> Inl nilDeref
                   | Some KindInt \<Rightarrow>
                       (case AsInt b of Inl e \<Rightarrow> Inl e | Inr y \<Rightarrow> Inr (intVal (sint x - y)))
                   | Some KindFloat \<Rightarrow> Inl (NotEmbedded ''float64(int64)'')
                   | Some _ \<Rightarrow> Inl (MakeBinaryOpError ''sub'' a b None)))
         | floatVal x \<Rightarrow>
             (case AsFloat b of Inl e \<Rightarrow> Inl e | Inr y \<Rightarrow> Inl (NotEmbedded ''float64 -''))
         | timestampVal t \<Rightarrow>
             (case AsInterval b of Inl e \<Rightarrow> Inl e | Inr d \<Rightarrow> Inr (timestampVal (t + sint (- d))))
         | intervalVal d \<Rightarrow>
             (case b of
                timestampVal t \<Rightarrow> Inr (timestampVal (t + sint (- d)))
              | _ \<Rightarrow>
                  (case AsInterval b of Inl e \<Rightarrow> Inl e | Inr d' \<Rightarrow> Inr (intervalVal (d - d'))))
         | _ \<Rightarrow> Inl (MakeBinaryOpError ''sub'' a b None)))"

definition Mul :: "Value \<Rightarrow> Value \<Rightarrow> error + Value" where
  "Mul a b =
     (if a = nullVal \<or> b = nullVal then Inr nullVal
      else wrapBinary ''mul'' a b
        (case a of
           intVal x \<Rightarrow>
             (case KindOf b of
                None \<Rightarrow> Inl nilDeref
              | Some KindInt \<Rightarrow>
                  (case AsInt b of Inl e \<Rightarrow> Inl e | Inr y \<Rightarrow> Inr (intVal (x * y)))
              | Some KindFloat \<Rightarrow> Inl (NotEmbedded ''big.Float.Float64'')
              | Some KindInterval \<Rightarrow>
                  (case AsInterval b of
                     Inl e \<Rightarrow> Inl e
                   | Inr d \<Rightarrow> Inr (intervalVal (big_Int64 (x * sint d))))
              | Some _ \<Rightarrow> Inl (MakeBinaryOpError ''mul'' a b None))
         | int64Val x \<Rightarrow>
             (case mul_fast x b of
                Some r \<Rightarrow> r
              | None \<Rightarrow>
                  (case KindOf b of
                     None \<Rightarrow> Inl nilDeref
                   | Some KindInt \<Rightarrow>
                       (case AsInt b of Inl e \<Rightarrow> Inl e | Inr y \<Rightarrow> Inr (intVal (sint x * y)))
                   | Some KindFloat \<Rightarrow> Inl (NotEmbedded ''float64(int64)'')
                   | Some KindInterval \<Rightarrow>
                       (case AsInterval b of
                          Inl e \<Rightarrow> Inl e
                        | Inr d \<Rightarrow> Inr (intervalVal (x * d)))
                   | Some _ \<Rightarrow> Inl (MakeBinaryOpError ''mul'' a b None)))
         | floatVal x \<Rightarrow>
             (case KindOf b of
                None \<Rightarrow> Inl nilDeref
              | Some KindInterval \<Rightarrow>
                  (case AsInterval b of
                     Inl e \<Rightarrow> Inl e
                   | Inr d \<Rightarrow> Inl (NotEmbedded ''float64 *''))
              | Some _ \<Rightarrow>
                  (case AsFloat b of Inl e \<Rightarrow> Inl e | Inr y \<Rightarrow> Inl (NotEmbedded ''float64 *'')))
         | intervalVal d \<Rightarrow>
             (case KindOf b of
                None \<Rightarrow> Inl nilDeref
              | Some KindInt \<Rightarrow>
                  (if d = 0 then Inr (intervalVal 0)
                   else if IsInt64 b then
                     (case AsInt64 b of
                        Inl e \<Rightarrow> Inl e
                      | Inr b' \<Rightarrow>
                          (let result = d * b' in
                           if b' = 0 \<or> d = 1 \<or> b' = 1 \<or> quo64 result d = b'
                           then Inr (intervalVal result)
                           else Inl (MakeBinaryOpError ''mul'' a b None)))
                   else Inl (MakeBinaryOpError ''mul'' a b None))
              | Some KindFloat \<Rightarrow>
                  (case AsFloat b of Inl e \<Rightarrow> Inl e | Inr y \<Rightarrow> Inl (NotEmbedded ''float64 *''))
              | Some _ \<Rightarrow> Inl (MakeBinaryOpError ''mul'' a b None))
         | _ \<Rightarrow> Inl (MakeBinaryOpError ''mul'' a b None)))"


definition Div :: "Value \<Rightarrow> Value \<Rightarrow> error + Value" where
  "Div a b =
     (if a = nullVal \<or> b = nullVal then Inr nullVal
      else wrapBinary ''div'' a b
        (case a of
           intVal x \<Rightarrow>
             (case KindOf b of
                None \<Rightarrow> Inl nilDeref
              | Some KindInt \<Rightarrow>
                  (case AsInt b of
                     Inl e \<Rightarrow> Inl e
                   | Inr y \<Rightarrow>
                       if big_IsInt64 y \<and> big_Int64 y = 0 then Inl ErrDivideByZero
                       else Inr (intVal (big_Div x y)))
              | Some KindFloat \<Rightarrow> Inl (NotEmbedded ''big.Float.Float64'')
              | Some _ \<Rightarrow> Inl (MakeBinaryOpError ''div'' a b None))
         | int64Val x \<Rightarrow>
             (if IsInt64 b then
                (case AsInt64 b of
                   Inl e \<Rightarrow> Inl e
                 | Inr y \<Rightarrow> if y = 0 then Inl ErrDivideByZero else Inr (int64Val (quo64 x y)))
              else
                (case KindOf b of
                   None \<Rightarrow> Inl nilDeref
                 | Some KindInt \<Rightarrow>
                     (case AsInt b of
                        Inl e \<Rightarrow> Inl e
                      | Inr y \<Rightarrow> Inr (intVal (big_Div (sint x) y)))
                 | Some KindFloat \<Rightarrow> Inl (NotEmbedded ''float64(int64)'')
                 | Some _ \<Rightarrow> Inl (MakeBinaryOpError ''div'' a b None)))
         | floatVal x \<Rightarrow>
             (case AsFloat b of Inl e \<Rightarrow> Inl e | Inr y \<Rightarrow> Inl (NotEmbedded ''float64 /''))
         | _ \<Rightarrow> Inl (MakeBinaryOpError ''div'' a b None)))"

definition FloatDiv :: "Value \<Rightarrow> Value \<Rightarrow> error + Value" where
  "FloatDiv a b =
     (if a = nullVal \<or> b = nullVal then Inr nullVal
      else wrapBinary ''float_div'' a b
        (case KindOf a of
           None \<Rightarrow> Inl nilDeref
         | Some KindInt \<Rightarrow>
             (case AsFloat a of
                Inl e \<Rightarrow> Inl e
              | Inr x \<Rightarrow>
                  (case AsFloat b of Inl e \<Rightarrow> Inl e | Inr y \<Rightarrow> Inl (NotEmbedded ''float64 /'')))
         | Some KindFloat \<Rightarrow>
             (case AsFloat a of
                Inl e \<Rightarrow> Inl e
              | Inr x \<Rightarrow>
                  (case AsFloat b of Inl e \<Rightarrow> Inl e | Inr y \<Rightarrow> Inl (NotEmbedded ''float64 /'')))
         | Some KindInterval \<Rightarrow>
             (case AsInterval a of
                Inl e \<Rightarrow> Inl e
              | Inr x \<Rightarrow>
                  (case AsFloat b of Inl e \<Rightarrow> Inl e | Inr y \<Rightarrow> Inl (NotEmbedded ''float64 /'')))
         | Some _ \<Rightarrow> Inl (MakeBinaryOpError ''float_div'' a b None)))"

definition Mod :: "Value \<Rightarrow> Value \<Rightarrow> error + Value" where
  "Mod a b =
     (if a = nullVal \<or> b = nullVal then Inr nullVal
      else wrapBinary ''mod'' a b
        (case a of
           intVal x \<Rightarrow>
             (case KindOf b of
                None \<Rightarrow> Inl nilDeref
              | Some KindInt \<Rightarrow>
                  (case AsInt b of
                     Inl e \<Rightarrow> Inl e
                   | Inr y \<Rightarrow>
                       if big_IsInt64 y \<and> big_Int64 y = 0 then Inl ErrDivideByZero
                       else Inr (intVal (big_Mod x y)))
              | Some KindFloat \<Rightarrow> Inl (NotEmbedded ''big.Float.Float64'')
              | Some _ \<Rightarrow> Inl (MakeBinaryOpError ''mod'' a b None))
         | int64Val x \<Rightarrow>
             (if IsInt64 b then
                (case AsInt64 b of
                   Inl e \<Rightarrow> Inl e
                 | Inr y \<Rightarrow> if y = 0 then Inl ErrDivideByZero else Inr (int64Val (rem64 x y)))
              else
                (case KindOf b of
                   None \<Rightarrow> Inl nilDeref
                 | Some KindInt \<Rightarrow>
                     (case AsInt b of
                        Inl e \<Rightarrow> Inl e
                      | Inr y \<Rightarrow> Inr (intVal (big_Mod (sint x) y)))
                 | Some KindFloat \<Rightarrow> Inl (NotEmbedded ''float64(int64)'')
                 | Some _ \<Rightarrow> Inl (MakeBinaryOpError ''mod'' a b None)))
         | floatVal x \<Rightarrow>
             (case AsFloat b of Inl e \<Rightarrow> Inl e | Inr y \<Rightarrow> Inl (NotEmbedded ''math.Mod''))
         | _ \<Rightarrow> Inl (MakeBinaryOpError ''mod'' a b None)))"

definition wrapUnary :: "string \<Rightarrow> Value \<Rightarrow> error + 'a \<Rightarrow> error + 'a" where
  "wrapUnary op a r =
     (case r of
        Inr x \<Rightarrow> Inr x
      | Inl (UnaryOpError op' v c) \<Rightarrow> Inl (UnaryOpError op' v c)
      | Inl (Panic m) \<Rightarrow> Inl (Panic m)
      | Inl NoReturn \<Rightarrow> Inl NoReturn
      | Inl (NotEmbedded m) \<Rightarrow> Inl (NotEmbedded m)
      | Inl e \<Rightarrow> Inl (UnaryOpError op a (Some e)))"

definition MakeUnaryOpError :: "string \<Rightarrow> Value \<Rightarrow> error option \<Rightarrow> error" where
  "MakeUnaryOpError op val cause = UnaryOpError op val cause"

definition Neg :: "Value \<Rightarrow> error + Value" where
  "Neg a =
     (if a = nullVal then Inr nullVal
      else wrapUnary ''neg'' a
        (case a of
           intVal x \<Rightarrow> Inr (intVal (- x))
         | int64Val x \<Rightarrow>
             if sint x = MinInt64 then Inr (intVal (MaxInt64 + 1)) else Inr (int64Val (- x))
         | floatVal x \<Rightarrow> Inr (floatVal (x XOR push_bit 63 1))
         | intervalVal d \<Rightarrow> Inr (intervalVal (- d))
         | _ \<Rightarrow> Inl (MakeUnaryOpError ''neg'' a None)))"

subsection \<open>Numbers from literals\<close>

text \<open>
  \<^verbatim>\<open>MakeNumberFromLiteral\<close> calls three parsers of the Go library, modelled here from the
  library's documentation and source.

  \<^verbatim>\<open>strconv.ParseInt(s, 10, 64)\<close> accepts an optional sign followed by one or more decimal
  digits (no underscore, since the base is not 0) and fails when the value is outside the
  signed 64-bit range.
\<close>

definition isDecDigit :: "char \<Rightarrow> bool" where
  "isDecDigit c \<longleftrightarrow> (of_char (CHR ''0'') :: nat) \<le> of_char c \<and> (of_char c :: nat) \<le> of_char (CHR ''9'')"

definition dec_value :: "string \<Rightarrow> int" where
  "dec_value ds = foldl (\<lambda>acc c. 10 * acc + (int (of_char c) - 48)) 0 ds"

definition strconv_ParseInt :: "string \<Rightarrow> int64 option" where
  "strconv_ParseInt s =
     (let neg = (s \<noteq> [] \<and> hd s = CHR ''-'');
          ds = (if s \<noteq> [] \<and> (hd s = CHR ''+'' \<or> hd s = CHR ''-'') then tl s else s)
      in if ds = [] \<or> \<not> list_all isDecDigit ds then None
         else
           (let un = dec_value ds in
            if \<not> neg \<and> un \<ge> 2 ^ 63 then None
            else if neg \<and> un > 2 ^ 63 then None
            else Some (word_of_int (if neg then - un else un))))"

text \<open>
  \<^verbatim>\<open>(*big.Int).SetString(s, 0)\<close> reads an optional sign, then a base prefix (\<^verbatim>\<open>0b\<close>,
  \<^verbatim>\<open>0o\<close>, \<^verbatim>\<open>0x\<close> in either case, or a leading \<^verbatim>\<open>0\<close> for octal), then digits of that base
  in which an underscore may follow a digit or the prefix; it succeeds when the whole string
  was consumed, at least one digit was read (or the string is the octal prefix alone) and no
  underscore was misplaced. \<open>digit_value\<close> is the value of a byte as a digit, \<open>scan_digits\<close>
  the loop over the bytes after the prefix: its state is the value so far, the number of
  digits, whether the previous byte was a digit (or the prefix) and whether a separator was
  misplaced; it returns the state and the rest of the input at the first byte that is
  neither a digit of the base nor an underscore.
\<close>

definition digit_value :: "char \<Rightarrow> nat" where
  "digit_value c =
     (let n = (of_char c :: nat) in
      if 48 \<le> n \<and> n \<le> 57 then n - 48
      else if 97 \<le> n \<and> n \<le> 122 then n - 97 + 10
      else if 65 \<le> n \<and> n \<le> 90 then n - 65 + 10
      else 63)"

fun scan_digits :: "nat \<Rightarrow> string \<Rightarrow> int \<Rightarrow> nat \<Rightarrow> bool \<Rightarrow> bool
    \<Rightarrow> (int \<times> nat \<times> bool \<times> bool) \<times> string" where
  "scan_digits b [] v cnt prevDigit invalSep = ((v, cnt, prevDigit, invalSep), [])"
| "scan_digits b (c # cs) v cnt prevDigit invalSep =
     (if c = CHR ''_'' then scan_digits b cs v cnt False (invalSep \<or> \<not> prevDigit)
      else if digit_value c \<ge> b then ((v, cnt, prevDigit, invalSep), c # cs)
      else scan_digits b cs (v * int b + int (digit_value c)) (Suc cnt) True invalSep)"

definition big_scan :: "string \<Rightarrow> (int \<times> string) option" where
  "big_scan r =
     (case r of
        [] \<Rightarrow> None
      | c # cs \<Rightarrow>
          if c = CHR ''0'' \<and> cs \<noteq> [] then
            (let p = hd cs;
                 (b, pre) =
                   (if p = CHR ''b'' \<or> p = CHR ''B'' then (2, CHR ''b'')
                    else if p = CHR ''o'' \<or> p = CHR ''O'' then (8, CHR ''o'')
                    else if p = CHR ''x'' \<or> p = CHR ''X'' then (16, CHR ''x'')
                    else (8 :: nat, CHR ''0''));
                 ((v, cnt, prevDigit, invalSep), rest) =
                   scan_digits b (if pre = CHR ''0'' then cs else tl cs) 0 0 True False
             in if invalSep \<or> \<not> prevDigit then None
                else if cnt = 0 then (if pre = CHR ''0'' then Some (0, rest) else None)
                else Some (v, rest))
          else
            (let ((v, cnt, prevDigit, invalSep), rest) =
                   scan_digits 10 (if c = CHR ''0'' then cs else c # cs) 0
                     (if c = CHR ''0'' then 1 else 0) (c = CHR ''0'') False
             in if invalSep \<or> (cnt > 0 \<and> \<not> prevDigit) then None
                else if cnt = 0 then None
                else Some (v, rest)))"

definition big_SetString :: "string \<Rightarrow> int option" where
  "big_SetString s =
     (if s = [] then None
      else
        (let neg = (hd s = CHR ''-'');
             r = (if hd s = CHR ''+'' \<or> hd s = CHR ''-'' then tl s else s)
         in case big_scan r of
              None \<Rightarrow> None
            | Some (v, rest) \<Rightarrow> if rest \<noteq> [] then None else Some (if neg then - v else v)))"

text \<open>\<^verbatim>\<open>strconv.ParseFloat\<close> rounds a decimal to binary and is not embedded.\<close>

definition strconv_ParseFloat :: "string \<Rightarrow> error + float64" where
  "strconv_ParseFloat s = Inl (NotEmbedded ''strconv.ParseFloat'')"

definition MakeNumberFromLiteral :: "string \<Rightarrow> error + Value" where
  "MakeNumberFromLiteral s =
     (case strconv_ParseInt s of
        Some i \<Rightarrow> Inr (MakeInt64 i)
      | None \<Rightarrow>
          (case big_SetString s of
             Some bi \<Rightarrow> Inr (intVal bi)
           | None \<Rightarrow>
               (case strconv_ParseFloat s of
                  Inl e \<Rightarrow> Inl e
                | Inr f \<Rightarrow> Inr (MakeFloat f))))"

section \<open>Package template: names and expressions\<close>

text \<open>
  A Go string is its bytes, here a \<open>string\<close>. Two library functions are used on names.
  \<^verbatim>\<open>strings.ReplaceAll\<close> replaces the non-overlapping matches of a pattern from left to
  right; the code calls it with the non-empty patterns \<^verbatim>\<open>"."\<close> and a doubled quote only,
  and for an empty pattern (where the library inserts at every rune boundary) the
  function below returns its argument. \<^verbatim>\<open>strings.ToLower\<close> is modelled on ASCII: the letters
  \<^verbatim>\<open>A\<close> to \<^verbatim>\<open>Z\<close> are mapped, every other byte is kept (the library also maps the
  upper-case letters beyond ASCII).
\<close>

function ReplaceAll :: "string \<Rightarrow> string \<Rightarrow> string \<Rightarrow> string" where
  "ReplaceAll [] old new = []"
| "ReplaceAll (c # cs) old new =
     (if old \<noteq> [] \<and> prefix old (c # cs)
      then new @ ReplaceAll (drop (length old) (c # cs)) old new
      else c # ReplaceAll cs old new)"
  by pat_completeness auto
termination
  by (relation "measure (\<lambda>(s, old, new). length s)") (auto simp: neq_Nil_conv)

definition lower_table :: "(char \<times> char) list" where
  "lower_table = zip ''ABCDEFGHIJKLMNOPQRSTUVWXYZ'' ''abcdefghijklmnopqrstuvwxyz''"

definition lower_byte :: "char \<Rightarrow> char" where
  "lower_byte c = (case map_of lower_table c of Some d \<Rightarrow> d | None \<Rightarrow> c)"

definition ToLower :: "string \<Rightarrow> string" where
  "ToLower s = map lower_byte s"

text \<open>\<^verbatim>\<open>strings.Join\<close>.\<close>

fun Join :: "string list \<Rightarrow> string \<Rightarrow> string" where
  "Join [] sep = []"
| "Join [x] sep = x"
| "Join (x # y # ys) sep = x @ sep @ Join (y # ys) sep"

text \<open>
  \<^verbatim>\<open>unescape\<close> strips the quotation of a name: for a string of at least two bytes that
  starts with a quote character, the first and the last byte are dropped and every doubled
  quote becomes a single one; for one that starts with a bracket, the first and the last
  byte are dropped.
\<close>

definition unescape :: "string \<Rightarrow> string" where
  "unescape s =
     (if length s < 2 then s
      else if hd s = CHR 0x22 \<or> hd s = CHR 0x60 \<or> hd s = CHR 0x27
        then ReplaceAll (butlast (tl s)) [hd s, hd s] [hd s]
      else if hd s = CHR ''['' then butlast (tl s)
      else s)"



text \<open>
  The fields \<^verbatim>\<open>O\<close> (the original name) and \<^verbatim>\<open>N\<close> (the normalized name) of
  \<^verbatim>\<open>Name\<close> are \<open>Name_O\<close> and \<open>Name_N\<close> here.
\<close>

record Name =
  Name_O :: string
  Name_N :: string

definition NewName :: "string \<Rightarrow> Name" where
  "NewName name = \<lparr> Name_O = name, Name_N = ToLower (unescape name) \<rparr>"

record QName =
  Parts :: "Name list"

definition NewQName :: "string list \<Rightarrow> QName" where
  "NewQName names = \<lparr> Parts = map NewName names \<rparr>"

definition UniqueName :: "QName \<Rightarrow> string" where
  "UniqueName q = Join (map (\<lambda>p. ReplaceAll (Name_N p) ''.'' ''%2E'') (Parts q)) ''.''"


text \<open>\<^verbatim>\<open>(*QName).String\<close>: the original parts joined with a period.\<close>

definition QName_String :: "QName \<Rightarrow> string" where
  "QName_String q = Join (map Name_O (Parts q)) ''.''"

datatype Op = OpInvalid | OpAssign | OpLT | OpLE | OpGT | OpGE | OpEQ | OpNE | OpConcat
  | OpAdd | OpSub | OpMul | OpFloatDiv | OpBitAnd | OpBitOr | OpBitXor | OpBitNot
  | OpSemicolon | OpOr | OpAnd | OpNot | OpIs | OpIsNot

fun Op_String :: "Op \<Rightarrow> string" where
  "Op_String OpAssign = '':=''"
| "Op_String OpLT = ''<''"
| "Op_String OpLE = ''<=''"
| "Op_String OpGT = ''>''"
| "Op_String OpGE = ''>=''"
| "Op_String OpEQ = ''=''"
| "Op_String OpNE = ''<>''"
| "Op_String OpConcat = ''||''"
| "Op_String OpAdd = ''+''"
| "Op_String OpSub = ''-''"
| "Op_String OpMul = ''*''"
| "Op_String OpFloatDiv = ''/''"
| "Op_String OpBitAnd = ''&''"
| "Op_String OpBitOr = ''|''"
| "Op_String OpBitXor = ''^''"
| "Op_String OpBitNot = ''~''"
| "Op_String OpSemicolon = '';''"
| "Op_String OpOr = ''OR''"
| "Op_String OpAnd = ''AND''"
| "Op_String OpNot = ''NOT''"
| "Op_String OpIs = ''IS''"
| "Op_String OpIsNot = ''IS NOT''"
| "Op_String OpInvalid = ''invalid<0>''"

fun Prec :: "Op \<Rightarrow> nat" where
  "Prec OpSemicolon = 1"
| "Prec OpAssign = 2"
| "Prec OpOr = 3"
| "Prec OpAnd = 4"
| "Prec OpNot = 5"
| "Prec OpLT = 6" | "Prec OpLE = 6" | "Prec OpGT = 6" | "Prec OpGE = 6"
| "Prec OpEQ = 6" | "Prec OpNE = 6" | "Prec OpIs = 6" | "Prec OpIsNot = 6"
| "Prec OpBitOr = 7" | "Prec OpBitXor = 7"
| "Prec OpBitAnd = 8"
| "Prec OpAdd = 9" | "Prec OpSub = 9" | "Prec OpConcat = 9"
| "Prec OpMul = 10" | "Prec OpFloatDiv = 10"
| "Prec OpBitNot = 11"
| "Prec OpInvalid = 0"

fun IsRightAssoc :: "Op \<Rightarrow> bool" where
  "IsRightAssoc OpAssign = True"
| "IsRightAssoc _ = False"

fun IsBinary :: "Op \<Rightarrow> bool" where
  "IsBinary OpInvalid = False"
| "IsBinary OpBitNot = False"
| "IsBinary OpNot = False"
| "IsBinary _ = True"

text \<open>
  \<^verbatim>\<open>StringUnit\<close> is an integer type whose zero value means that no unit was given;
  \<^verbatim>\<open>IntervalUnit\<close> is a \<^verbatim>\<open>time.Duration\<close>, a number of nanoseconds.
\<close>

datatype StringUnit = StringUnitUnset | StringUnitCharacters | StringUnitOctets

type_synonym IntervalUnit = int64

definition IntervalUnitMicrosecond :: IntervalUnit where "IntervalUnitMicrosecond = 1000"
definition IntervalUnitMillisecond :: IntervalUnit where "IntervalUnitMillisecond = 1000000"
definition IntervalUnitSecond :: IntervalUnit where "IntervalUnitSecond = 1000000000"
definition IntervalUnitMinute :: IntervalUnit where "IntervalUnitMinute = 60000000000"
definition IntervalUnitHour :: IntervalUnit where "IntervalUnitHour = 3600000000000"
definition IntervalUnitDay :: IntervalUnit where "IntervalUnitDay = 86400000000000"
definition IntervalUnitWeek :: IntervalUnit where "IntervalUnitWeek = 604800000000000"

text \<open>
  The expressions of a template. The Go types share their names with the compiled
  expressions of package \<^verbatim>\<open>dbgen\<close>, so the constructors carry the package name. A field
  that the parser may leave \<^verbatim>\<open>nil\<close> is optional; a \<^verbatim>\<open>When\<close> is the pair of its condition
  and its result.
\<close>

datatype Expr =
    template_RowNum
  | template_SubRowNum
  | template_CurrentTimestamp
  | template_Constant Value
  | template_GetVariable string
  | template_SetVariable string Expr
  | template_UnaryExpr Op Expr
  | template_BinaryExpr Op Expr Expr
  | template_ParenExpr Expr
  | template_FuncExpr QName "Expr list"
  | template_CaseValueWhen "Expr option" "(Expr \<times> Expr) list" "Expr option"
  | template_Timestamp bool Expr
  | template_Interval IntervalUnit Expr
  | template_Array "Expr list"
  | template_Subscript Expr Expr
  | template_Substring Expr "Expr option" "Expr option" StringUnit
  | template_Overlay Expr Expr Expr "Expr option" StringUnit

section \<open>Package dbgen: functions, compilation and evaluation\<close>

subsection \<open>Function objects\<close>

datatype Encoding = HexEncoding | Base64Encoding

text \<open>The field \<^verbatim>\<open>Op\<close> of an \<^verbatim>\<open>ArithFunc\<close> is one of six functions of package constant.\<close>

datatype ArithOp = constant_Add | constant_Sub | constant_Mul | constant_FloatDiv
  | constant_Div | constant_Mod

datatype Function =
    ArrayFunc
  | SubscriptFunc
  | GenerateSeriesFunc
  | EncodeFunc Encoding
  | DecodeFunc Encoding
  | PanicFunc
  | NegFunc
  | CompareFunc (LT: bool) (EQ: bool) (GT: bool)
  | IsFunc
  | IsNotFunc
  | NotFunc
  | BitNotFunc
  | BitwiseFunc Op
  | LogicalAndFunc
  | LogicalOrFunc
  | ArithFunc ArithOp
  | GreatestFunc
  | LeastFunc
  | RoundFunc
  | CoalesceFunc
  | LastFunc
  | RandRangeFunc
  | RandRangeInclusiveFunc
  | RandUniformFunc
  | RandUniformInclusiveFunc
  | RandZipfFunc
  | RandLogNormalFunc
  | RandBoolFunc
  | RandFiniteF32Func
  | RandFiniteF64Func
  | RandU31TimestampFunc
  | RandUuidFunc
  | RandRegexFunc
  | RandShuffleFunc
  | SubstringFunc StringUnit
  | CharLengthFunc
  | OctetLengthFunc
  | OverlayFunc StringUnit
  | ConcatFunc
  | TimestampFunc
  | TimestampWithTimeZoneFunc

text \<open>
  The compiled expressions. \<^verbatim>\<open>SetVariable.Value\<close> is an interface field and may be
  \<^verbatim>\<open>nil\<close>, so it is optional here.
\<close>

datatype Compiled =
    RowNum
  | SubRowNum
  | Constant Value
  | RawFunction Function "Compiled list"
  | GetVariable nat
  | SetVariable nat "Compiled option"
  | CaseValueWhen Compiled "(Compiled \<times> Compiled) list" Compiled
  | RandRegex string
  | RandUniformU64
  | RandUniformI64
  | RandUniformF64
  | RandZipf
  | RandLogNormal
  | RandBool
  | RandFinite32
  | RandFinite64
  | RandU31Timestamp
  | RandShuffle
  | RandUuid

fun IsConstant :: "Compiled \<Rightarrow> bool" where
  "IsConstant (Constant _) = True"
| "IsConstant _ = False"

text \<open>The type assertion \<^verbatim>\<open>arg.(*Constant).Value\<close>, made on constants only.\<close>

fun Constant_Value :: "Compiled \<Rightarrow> Value" where
  "Constant_Value (Constant v) = v"
| "Constant_Value _ = NilValue"

text \<open>
  The compile context. Its time zone is kept by name; the cache of loaded zones and the
  loader belong to the parsing of dates, which is not embedded.
\<close>

record CompileContext =
  TimeZone :: string
  CurrentTimestamp :: int
  Variables :: "(string \<times> Value) list"

text \<open>
  The evaluation state. The random source is consulted by the random generators only, none
  of which is implemented. \<^verbatim>\<open>CompileCtx\<close> is a pointer and may be \<^verbatim>\<open>nil\<close>.
\<close>

record State =
  State_RowNum :: int64
  State_SubRowNum :: int64
  State_CompileCtx :: "CompileContext option"

fun NumArgs :: "Function \<Rightarrow> int" where
  "NumArgs ArrayFunc = - 1"
| "NumArgs SubscriptFunc = 2"
| "NumArgs GenerateSeriesFunc = - 1"
| "NumArgs (EncodeFunc _) = 1"
| "NumArgs (DecodeFunc _) = 1"
| "NumArgs PanicFunc = - 1"
| "NumArgs NegFunc = 1"
| "NumArgs (CompareFunc _ _ _) = 2"
| "NumArgs IsNotFunc = 1"
| "NumArgs NotFunc = 1"
| "NumArgs BitNotFunc = 1"
| "NumArgs (BitwiseFunc _) = 2"
| "NumArgs (ArithFunc _) = 2"
| "NumArgs GreatestFunc = - 1"
| "NumArgs LeastFunc = - 1"
| "NumArgs RoundFunc = 1"
| "NumArgs CoalesceFunc = - 1"
| "NumArgs RandRangeFunc = 2"
| "NumArgs RandRangeInclusiveFunc = 2"
| "NumArgs RandUniformFunc = 2"
| "NumArgs RandUniformInclusiveFunc = 2"
| "NumArgs RandZipfFunc = 2"
| "NumArgs RandLogNormalFunc = 2"
| "NumArgs RandBoolFunc = 0"
| "NumArgs RandFiniteF32Func = 0"
| "NumArgs RandFiniteF64Func = 0"
| "NumArgs RandU31TimestampFunc = 0"
| "NumArgs RandUuidFunc = 0"
| "NumArgs RandRegexFunc = 1"
| "NumArgs RandShuffleFunc = 1"
| "NumArgs (SubstringFunc _) = - 1"
| "NumArgs CharLengthFunc = 1"
| "NumArgs OctetLengthFunc = 1"
| "NumArgs (OverlayFunc _) = - 1"
| "NumArgs ConcatFunc = 2"
| "NumArgs TimestampFunc = 1"
| "NumArgs TimestampWithTimeZoneFunc = 1"
| "NumArgs _ = - 1"

text \<open>
  (\<^verbatim>\<open>IsFunc\<close>, \<^verbatim>\<open>LogicalAndFunc\<close>, \<^verbatim>\<open>LogicalOrFunc\<close> and \<^verbatim>\<open>LastFunc\<close> have no method
  \<^verbatim>\<open>NumArgs\<close> and appear in no table; the last equation only makes the function total.)
\<close>

definition GenericFuncs :: "string \<rightharpoonup> Function" where
  "GenericFuncs = map_of
    [(''generate_series'', GenerateSeriesFunc),
     (''encode.hex'', EncodeFunc HexEncoding),
     (''encode.base64'', EncodeFunc Base64Encoding),
     (''decode.hex'', DecodeFunc HexEncoding),
     (''decode.base64'', DecodeFunc Base64Encoding),
     (''debug.panic'', PanicFunc),
     (''least'', LeastFunc),
     (''greatest'', GreatestFunc),
     (''round'', RoundFunc),
     (''div'', ArithFunc constant_Div),
     (''mod'', ArithFunc constant_Mod),
     (''coalesce'', CoalesceFunc),
     (''rand.range'', RandRangeFunc),
     (''rand.range_inclusive'', RandRangeInclusiveFunc),
     (''rand.uniform'', RandUniformFunc),
     (''rand.uniform_inclusive'', RandUniformInclusiveFunc),
     (''rand.zipf'', RandZipfFunc),
     (''rand.log_normal'', RandLogNormalFunc),
     (''rand.bool'', RandBoolFunc),
     (''rand.finite_f32'', RandFiniteF32Func),
     (''rand.finite_f64'', RandFiniteF64Func),
     (''rand.u31_timestamp'', RandU31TimestampFunc),
     (''rand.uuid'', RandUuidFunc),
     (''rand.regex'', RandRegexFunc),
     (''rand.shuffle'', RandShuffleFunc),
     (''char_length'', CharLengthFunc),
     (''octet_length'', OctetLengthFunc)]"

definition UnaryFuncs :: "Op \<rightharpoonup> Function" where
  "UnaryFuncs = map_of
    [(OpSub, NegFunc),
     (OpNot, NotFunc),
     (OpIsNot, IsNotFunc),
     (OpBitNot, BitNotFunc)]"

definition BinaryFuncs :: "Op \<rightharpoonup> Function" where
  "BinaryFuncs = map_of
    [(OpLT, CompareFunc True False False),
     (OpLE, CompareFunc True True False),
     (OpEQ, CompareFunc False True False),
     (OpNE, CompareFunc True False True),
     (OpGT, CompareFunc False False True),
     (OpGE, CompareFunc False True True),
     (OpBitAnd, BitwiseFunc OpBitAnd),
     (OpBitOr, BitwiseFunc OpBitOr),
     (OpBitXor, BitwiseFunc OpBitXor),
     (OpAdd, ArithFunc constant_Add),
     (OpSub, ArithFunc constant_Sub),
     (OpMul, ArithFunc constant_Mul),
     (OpFloatDiv, ArithFunc constant_FloatDiv),
     (OpConcat, ConcatFunc)]"

text \<open>Reading \<^verbatim>\<open>args[i]\<close>: the runtime panics when the index is out of range.\<close>

definition arg_at :: "Value list \<Rightarrow> nat \<Rightarrow> error + Value" where
  "arg_at args i =
     (if i < length args then Inr (args ! i) else Inl (Panic ''index out of range''))"

definition unimplemented :: "error + 'a" where
  "unimplemented = Inl (Panic ''unimplemented'')"

definition ArrayFunc_Compile :: "Value list \<Rightarrow> error + Compiled" where
  "ArrayFunc_Compile args = Inr (Constant (MakeArray args))"

definition SubscriptFunc_Compile :: "Value list \<Rightarrow> error + Compiled" where
  "SubscriptFunc_Compile args =
     (case arg_at args 0 of
        Inl e \<Rightarrow> Inl e
      | Inr a0 \<Rightarrow>
     (case AsArray a0 of
        Inl e \<Rightarrow> Inl e
      | Inr base \<Rightarrow>
     (case arg_at args 1 of
        Inl e \<Rightarrow> Inl e
      | Inr a1 \<Rightarrow>
     (case KindOf a1 of
        None \<Rightarrow> Inl nilDeref
      | Some k \<Rightarrow>
          if k \<noteq> KindInt
          then Inl (Errorf ''subscript must be an integer, got %s'' [ArgKind k])
          else if \<not> IsInt64 a1 then Inr (Constant Null)
          else
            (case AsInt64 a1 of
               Inl e \<Rightarrow> Inl e
             | Inr index \<Rightarrow>
                 if sint index \<le> 0 \<or> sint index > int (length base)
                 then Inr (Constant Null)
                 else Inr (Constant (base ! nat (sint index - 1))))))))"

text \<open>
  The loop of \<^verbatim>\<open>generate_series\<close> has no bound of its own, so it is a partial function:
  \<open>None\<close> is a run that never ends, \<open>Some\<close> the error or the collected values.
\<close>

partial_function (option) series_loop ::
  "Value \<Rightarrow> Value \<Rightarrow> Value \<Rightarrow> int \<Rightarrow> Value list \<Rightarrow> (error + Value list) option" where
  "series_loop val stop step stepSign result =
     (case Cmp val stop of
        Inl e \<Rightarrow> Some (Inl e)
      | Inr (cmp, isNull) \<Rightarrow>
          if isNull \<or> cmp = stepSign then Some (Inr result)
          else
            (case Add val step of
               Inl e \<Rightarrow> Some (Inl e)
             | Inr val' \<Rightarrow> series_loop val' stop step stepSign (result @ [val])))"

declare series_loop.simps [code]

definition GenerateSeriesFunc_Compile :: "Value list \<Rightarrow> error + Compiled" where
  "GenerateSeriesFunc_Compile args =
     (if length args < 2
      then Inl (Errorf ''generate_series requires at least 2 arguments, got %d''
                 [ArgInt (int (length args))])
      else if length args > 3
      then Inl (Errorf ''generate_series requires at most 3 arguments, got %d''
                 [ArgInt (int (length args))])
      else
        (let start = args ! 0; stop = args ! 1;
             step = (if length args = 3 then args ! 2 else MakeInt64 1);
             stepSign = (if length args = 3 then Sign (args ! 2) else 1)
         in if length args = 3 \<and> stepSign = 0
            then Inl (Errorf ''generate_series step cannot be zero'' [])
            else
              (case series_loop start stop step stepSign [] of
                 None \<Rightarrow> Inl NoReturn
               | Some (Inl e) \<Rightarrow> Inl e
               | Some (Inr result) \<Rightarrow> Inr (Constant (MakeArray result)))))"

definition PanicFunc_Compile :: "Value list \<Rightarrow> error + Compiled" where
  "PanicFunc_Compile args =
     Inl (Errorf (''runtime panic: '' @ concat (replicate (length args) ''%d. %s''))
           (concat (map (\<lambda>(i, a). [ArgInt (int i), ArgValue a]) (enumerate 0 args))))"

definition NegFunc_Compile :: "Value list \<Rightarrow> error + Compiled" where
  "NegFunc_Compile args =
     (case arg_at args 0 of
        Inl e \<Rightarrow> Inl e
      | Inr a0 \<Rightarrow> (case Neg a0 of Inl e \<Rightarrow> Inl e | Inr result \<Rightarrow> Inr (Constant result)))"

definition CompareFunc_Compile :: "bool \<Rightarrow> bool \<Rightarrow> bool \<Rightarrow> Value list \<Rightarrow> error + Compiled" where
  "CompareFunc_Compile lt eq gt args =
     (case arg_at args 0 of
        Inl e \<Rightarrow> Inl e
      | Inr a0 \<Rightarrow>
     (case arg_at args 1 of
        Inl e \<Rightarrow> Inl e
      | Inr a1 \<Rightarrow>
     (case Cmp a0 a1 of
        Inl e \<Rightarrow> Inl e
      | Inr (cmp, isNull) \<Rightarrow>
          if isNull then Inr (Constant Null)
          else if cmp = - 1 then Inr (Constant (MakeBool lt))
          else if cmp = 0 then Inr (Constant (MakeBool eq))
          else Inr (Constant (MakeBool gt)))))"

definition BitwiseFunc_Compile :: "Op \<Rightarrow> Value list \<Rightarrow> error + Compiled" where
  "BitwiseFunc_Compile op args =
     (case arg_at args 0 of
        Inl e \<Rightarrow> Inl e
      | Inr a0 \<Rightarrow>
     (case arg_at args 1 of
        Inl e \<Rightarrow> Inl e
      | Inr a1 \<Rightarrow>
          if a0 = Null \<or> a1 = Null then Inr (Constant Null)
          else if IsInt64 a0 \<and> IsInt64 a1 then
            (let x = (case AsInt64 a0 of Inr x \<Rightarrow> x | Inl _ \<Rightarrow> 0);
                 y = (case AsInt64 a1 of Inr y \<Rightarrow> y | Inl _ \<Rightarrow> 0)
             in case op of
                  OpBitAnd \<Rightarrow> Inr (Constant (MakeInt64 (x AND y)))
                | OpBitOr \<Rightarrow> Inr (Constant (MakeInt64 (x OR y)))
                | OpBitXor \<Rightarrow> Inr (Constant (MakeInt64 (x XOR y)))
                | _ \<Rightarrow> Inl (Errorf ''unknown bitwise operator: %v'' [ArgStr (Op_String op)]))
          else
            (case AsInt a0 of
               Inl e \<Rightarrow> Inl e
             | Inr x \<Rightarrow>
            (case AsInt a1 of
               Inl e \<Rightarrow> Inl e
             | Inr y \<Rightarrow>
                 (case op of
                    OpBitAnd \<Rightarrow> Inr (Constant (MakeInt (x AND y)))
                  | OpBitOr \<Rightarrow> Inr (Constant (MakeInt (x OR y)))
                  | OpBitXor \<Rightarrow> Inr (Constant (MakeInt (x XOR y)))
                  | _ \<Rightarrow> Inl (Errorf ''unknown bitwise operator: %v'' [ArgStr (Op_String op)]))))))"

fun ArithOp_apply :: "ArithOp \<Rightarrow> Value \<Rightarrow> Value \<Rightarrow> error + Value" where
  "ArithOp_apply constant_Add = Add"
| "ArithOp_apply constant_Sub = Sub"
| "ArithOp_apply constant_Mul = Mul"
| "ArithOp_apply constant_FloatDiv = FloatDiv"
| "ArithOp_apply constant_Div = Div"
| "ArithOp_apply constant_Mod = Mod"

definition ArithFunc_Compile :: "ArithOp \<Rightarrow> Value list \<Rightarrow> error + Compiled" where
  "ArithFunc_Compile op args =
     (case arg_at args 0 of
        Inl e \<Rightarrow> Inl e
      | Inr a0 \<Rightarrow>
     (case arg_at args 1 of
        Inl e \<Rightarrow> Inl e
      | Inr a1 \<Rightarrow>
     (case ArithOp_apply op a0 a1 of
        Inl e \<Rightarrow> Inl e
      | Inr result \<Rightarrow> Inr (Constant result))))"

text \<open>
  The encoders, decoders and the two timestamp functions convert their first argument to
  bytes and then call the library (\<^verbatim>\<open>encoding/hex\<close>, \<^verbatim>\<open>encoding/base64\<close>, \<^verbatim>\<open>time\<close>).
\<close>

definition library_on_bytes :: "string \<Rightarrow> Value list \<Rightarrow> error + Compiled" where
  "library_on_bytes lib args =
     (case arg_at args 0 of
        Inl e \<Rightarrow> Inl e
      | Inr a0 \<Rightarrow> (case AsBytes a0 of Inl e \<Rightarrow> Inl e | Inr src \<Rightarrow> Inl (NotEmbedded lib)))"

text \<open>
  \<^verbatim>\<open>fn.Compile(ctx, args)\<close>. Only the two timestamp functions read the context.
\<close>

fun Function_Compile :: "Function \<Rightarrow> CompileContext option \<Rightarrow> Value list \<Rightarrow> error + Compiled" where
  "Function_Compile ArrayFunc ctx args = ArrayFunc_Compile args"
| "Function_Compile SubscriptFunc ctx args = SubscriptFunc_Compile args"
| "Function_Compile GenerateSeriesFunc ctx args = GenerateSeriesFunc_Compile args"
| "Function_Compile (EncodeFunc HexEncoding) ctx args = library_on_bytes ''encoding/hex'' args"
| "Function_Compile (EncodeFunc Base64Encoding) ctx args = library_on_bytes ''encoding/base64'' args"
| "Function_Compile (DecodeFunc HexEncoding) ctx args = library_on_bytes ''encoding/hex'' args"
| "Function_Compile (DecodeFunc Base64Encoding) ctx args = library_on_bytes ''encoding/base64'' args"
| "Function_Compile PanicFunc ctx args = PanicFunc_Compile args"
| "Function_Compile NegFunc ctx args = NegFunc_Compile args"
| "Function_Compile (CompareFunc lt eq gt) ctx args = CompareFunc_Compile lt eq gt args"
| "Function_Compile (BitwiseFunc op) ctx args = BitwiseFunc_Compile op args"
| "Function_Compile (ArithFunc op) ctx args = ArithFunc_Compile op args"
| "Function_Compile TimestampFunc ctx args = library_on_bytes ''time.ParseInLocation'' args"
| "Function_Compile TimestampWithTimeZoneFunc ctx args = library_on_bytes ''time.ParseInLocation'' args"
| "Function_Compile _ ctx args = unimplemented"


subsection \<open>Compilation\<close>

text \<open>\<^verbatim>\<open>lo.FindIndexOf\<close>: the first index whose element satisfies the predicate, if any.\<close>

fun FindIndexOf :: "('a \<Rightarrow> bool) \<Rightarrow> 'a list \<Rightarrow> nat option" where
  "FindIndexOf P [] = None"
| "FindIndexOf P (x # xs) =
     (if P x then Some 0 else map_option Suc (FindIndexOf P xs))"

text \<open>
  The lookup shared by the \<^verbatim>\<open>GetVariable\<close> and \<^verbatim>\<open>SetVariable\<close> cases: the index of the
  name in the variable table, after appending a slot holding \<^verbatim>\<open>Null\<close> when it is new.
\<close>

definition variableIndex :: "CompileContext \<Rightarrow> string \<Rightarrow> nat \<times> CompileContext" where
  "variableIndex ctx name =
     (case FindIndexOf (\<lambda>v. fst v = name) (Variables ctx) of
        Some index \<Rightarrow> (index, ctx)
      | None \<Rightarrow> (length (Variables ctx), ctx\<lparr>Variables := Variables ctx @ [(name, Null)]\<rparr>))"

text \<open>
  The end of \<^verbatim>\<open>compileRawFunction\<close>, after its loop over the arguments: when every
  compiled argument is a constant the function is applied at once, otherwise the call is
  kept as a \<^verbatim>\<open>RawFunction\<close>.
\<close>

definition finishRawFunction ::
  "Function \<Rightarrow> (error + Compiled list \<times> bool) \<times> CompileContext
     \<Rightarrow> (error + Compiled) \<times> CompileContext" where
  "finishRawFunction fn r =
     (case r of
        (Inl e, ctx) \<Rightarrow> (Inl e, ctx)
      | (Inr (compiledArgs, isConst), ctx) \<Rightarrow>
          if isConst
          then (Function_Compile fn (Some ctx) (map Constant_Value compiledArgs), ctx)
          else (Inr (RawFunction fn compiledArgs), ctx))"

text \<open>
  \<^verbatim>\<open>CaseValueWhen.Eval\<close> is \<^verbatim>\<open>panic("unimplemented")\<close>; the compiler calls it on a
  \<^verbatim>\<open>CASE\<close> whose parts are all constants.
\<close>

definition CaseValueWhen_Eval :: "Compiled \<Rightarrow> error + Value" where
  "CaseValueWhen_Eval c = Inl (Panic ''unimplemented'')"

definition finishCaseValueWhen ::
  "Compiled \<Rightarrow> (Compiled \<times> Compiled) list \<Rightarrow> Compiled \<Rightarrow> error + Compiled" where
  "finishCaseValueWhen val whens els =
     (let compiled = CaseValueWhen val whens els in
      if IsConstant val \<and> list_all (\<lambda>w. IsConstant (fst w) \<and> IsConstant (snd w)) whens
         \<and> IsConstant els
      then (case CaseValueWhen_Eval compiled of
              Inl e \<Rightarrow> Inl e
            | Inr v \<Rightarrow> Inr (Constant v))
      else Inr compiled)"

fun arg_weight :: "Expr option \<Rightarrow> nat" where
  "arg_weight None = 1"
| "arg_weight (Some a) = 8 * size a + 2"

fun when_weight :: "Expr \<times> Expr \<Rightarrow> nat" where
  "when_weight (c, t) = 8 * size c + 8 * size t + 3"

lemma arg_weight_bound: "arg_weight x < Suc (Suc (8 * size_option size x))"
  by (cases x) auto

lemma arg_weights_sum:
  "sum_list (map (\<lambda>x. Suc (Suc (8 * size x))) xs) = 8 * sum_list (map size xs) + 2 * length xs"
  by (induction xs) auto

lemma when_weights_sum:
  "sum_list (map when_weight ws) \<le> 8 * sum_list (map (size_prod size size) ws) + 3 * length ws"
  by (induction ws) auto

text \<open>
  \<^verbatim>\<open>CompileExpr\<close> with the context passed through (it grows when a variable is new).
  \<open>compileArgs\<close> is the loop of \<^verbatim>\<open>compileRawFunction\<close> (a \<^verbatim>\<open>nil\<close> argument becomes
  the constant \<^verbatim>\<open>Null\<close>; the flag tells whether every compiled argument is a constant),
  \<open>compileWhens\<close> the loop of \<^verbatim>\<open>compileCaseValueWhen\<close>.
\<close>

function CompileExpr :: "CompileContext \<Rightarrow> Expr \<Rightarrow> (error + Compiled) \<times> CompileContext"
  and compileArgs ::
    "CompileContext \<Rightarrow> Expr option list \<Rightarrow> (error + Compiled list \<times> bool) \<times> CompileContext"
  and compileWhens ::
    "CompileContext \<Rightarrow> (Expr \<times> Expr) list
       \<Rightarrow> (error + (Compiled \<times> Compiled) list) \<times> CompileContext" where
  "CompileExpr ctx template_RowNum = (Inr RowNum, ctx)"
| "CompileExpr ctx template_SubRowNum = (Inr SubRowNum, ctx)"
| "CompileExpr ctx template_CurrentTimestamp =
     (Inr (Constant (MakeTimestamp (CurrentTimestamp ctx))), ctx)"
| "CompileExpr ctx (template_Constant v) = (Inr (Constant v), ctx)"
| "CompileExpr ctx (template_GetVariable name) =
     (case variableIndex ctx name of (index, ctx') \<Rightarrow> (Inr (GetVariable index), ctx'))"
| "CompileExpr ctx (template_SetVariable name e) =
     (case variableIndex ctx name of (index, ctx') \<Rightarrow> (Inr (SetVariable index None), ctx'))"
| "CompileExpr ctx (template_UnaryExpr op e) =
     (case UnaryFuncs op of
        None \<Rightarrow> (Inl (Errorf ''unknown unary operator: %s'' [ArgStr (Op_String op)]), ctx)
      | Some fn \<Rightarrow> finishRawFunction fn (compileArgs ctx [Some e]))"
| "CompileExpr ctx (template_BinaryExpr op l r) =
     (case BinaryFuncs op of
        None \<Rightarrow> (Inl (Errorf ''unknown binary operator: %s'' [ArgStr (Op_String op)]), ctx)
      | Some fn \<Rightarrow> finishRawFunction fn (compileArgs ctx [Some l, Some r]))"
| "CompileExpr ctx (template_ParenExpr e) = CompileExpr ctx e"
| "CompileExpr ctx (template_FuncExpr name args) =
     (case GenericFuncs (UniqueName name) of
        None \<Rightarrow> (Inl (Errorf ''unknown function: %s'' [ArgStr (QName_String name)]), ctx)
      | Some fn \<Rightarrow>
          if NumArgs fn \<ge> 0 \<and> int (length args) \<noteq> NumArgs fn
          then (Inl (Errorf ''wrong number of arguments for function %s: expected %d, got %d''
                      [ArgStr (QName_String name), ArgInt (NumArgs fn), ArgInt (int (length args))]),
                ctx)
          else finishRawFunction fn (compileArgs ctx (map Some args)))"
| "CompileExpr ctx (template_CaseValueWhen val whens els) =
     (case (case val of
              Some v \<Rightarrow> CompileExpr ctx v
            | None \<Rightarrow> (Inr (Constant Null), ctx)) of
        (Inl e, ctx1) \<Rightarrow> (Inl e, ctx1)
      | (Inr val', ctx1) \<Rightarrow>
     (case compileWhens ctx1 whens of
        (Inl e, ctx2) \<Rightarrow> (Inl e, ctx2)
      | (Inr whens', ctx2) \<Rightarrow>
     (case (case els of
              Some el \<Rightarrow> CompileExpr ctx2 el
            | None \<Rightarrow> (Inr (Constant Null), ctx2)) of
        (Inl e, ctx3) \<Rightarrow> (Inl e, ctx3)
      | (Inr els', ctx3) \<Rightarrow> (finishCaseValueWhen val' whens' els', ctx3))))"
| "CompileExpr ctx (template_Timestamp withTimezone v) =
     finishRawFunction (if withTimezone then TimestampWithTimeZoneFunc else TimestampFunc)
       (compileArgs ctx [Some v])"
| "CompileExpr ctx (template_Interval u v) =
     (case BinaryFuncs OpMul of
        None \<Rightarrow> (Inl nilDeref, ctx)
      | Some fn \<Rightarrow>
          finishRawFunction fn
            (compileArgs ctx [Some v, Some (template_Constant (MakeInterval u))]))"
| "CompileExpr ctx (template_Array elems) =
     finishRawFunction ArrayFunc (compileArgs ctx (map Some elems))"
| "CompileExpr ctx (template_Subscript base index) =
     finishRawFunction SubscriptFunc (compileArgs ctx [Some base, Some index])"
| "CompileExpr ctx (template_Substring input from' for' u) =
     finishRawFunction (SubstringFunc u) (compileArgs ctx [Some input, from', for'])"
| "CompileExpr ctx (template_Overlay input placing from' for' u) =
     finishRawFunction (OverlayFunc u)
       (compileArgs ctx [Some input, Some placing, Some from', for'])"
| "compileArgs ctx [] = (Inr ([], True), ctx)"
| "compileArgs ctx (None # args) =
     (case compileArgs ctx args of
        (Inl e, ctx') \<Rightarrow> (Inl e, ctx')
      | (Inr (cs, isConst), ctx') \<Rightarrow> (Inr (Constant Null # cs, isConst), ctx'))"
| "compileArgs ctx (Some arg # args) =
     (case CompileExpr ctx arg of
        (Inl e, ctx') \<Rightarrow> (Inl e, ctx')
      | (Inr compiled, ctx') \<Rightarrow>
          (case compileArgs ctx' args of
             (Inl e, ctx'') \<Rightarrow> (Inl e, ctx'')
           | (Inr (cs, isConst), ctx'') \<Rightarrow>
               (Inr (compiled # cs, IsConstant compiled \<and> isConst), ctx'')))"
| "compileWhens ctx [] = (Inr [], ctx)"
| "compileWhens ctx ((cond, then') # whens) =
     (case CompileExpr ctx cond of
        (Inl e, ctx1) \<Rightarrow> (Inl e, ctx1)
      | (Inr cond', ctx1) \<Rightarrow>
     (case CompileExpr ctx1 then' of
        (Inl e, ctx2) \<Rightarrow> (Inl e, ctx2)
      | (Inr then'', ctx2) \<Rightarrow>
     (case compileWhens ctx2 whens of
        (Inl e, ctx3) \<Rightarrow> (Inl e, ctx3)
      | (Inr ws, ctx3) \<Rightarrow> (Inr ((cond', then'') # ws), ctx3))))"
  by pat_completeness auto
termination
  by (relation "measure (\<lambda>x. case x of
          Inl (ctx, e) \<Rightarrow> 8 * size e + 1
        | Inr (Inl (ctx, args)) \<Rightarrow> sum_list (map arg_weight args) + 1
        | Inr (Inr (ctx, whens)) \<Rightarrow> sum_list (map when_weight whens) + 1)")
    (auto simp: comp_def size_list_conv_sum_list arg_weights_sum
       intro: le_less_trans [OF when_weights_sum]
              less_le_trans [OF arg_weight_bound]
              less_le_trans [OF add_less_mono [OF arg_weight_bound arg_weight_bound]])

subsection \<open>Evaluation\<close>

text \<open>
  Every \<^verbatim>\<open>Compile\<close> method that returns without an error returns a \<^verbatim>\<open>Constant\<close>. The
  evaluation of a \<^verbatim>\<open>RawFunction\<close> evaluates what \<^verbatim>\<open>Compile\<close> returned, and this fact is
  why that recursion ends.
\<close>

lemma SubscriptFunc_Compile_IsConstant:
  "SubscriptFunc_Compile args = Inr c \<Longrightarrow> \<exists>v. c = Constant v"
  unfolding SubscriptFunc_Compile_def
  by (auto split: sum.splits option.splits if_splits)

lemma GenerateSeriesFunc_Compile_IsConstant:
  "GenerateSeriesFunc_Compile args = Inr c \<Longrightarrow> \<exists>v. c = Constant v"
  unfolding GenerateSeriesFunc_Compile_def Let_def
  by (auto split: sum.splits option.splits if_splits)

lemma NegFunc_Compile_IsConstant:
  "NegFunc_Compile args = Inr c \<Longrightarrow> \<exists>v. c = Constant v"
  unfolding NegFunc_Compile_def
  by (auto split: sum.splits)

lemma CompareFunc_Compile_IsConstant:
  "CompareFunc_Compile lt eq gt args = Inr c \<Longrightarrow> \<exists>v. c = Constant v"
  unfolding CompareFunc_Compile_def
  by (auto split: sum.splits prod.splits if_splits)

lemma BitwiseFunc_Compile_IsConstant:
  "BitwiseFunc_Compile op args = Inr c \<Longrightarrow> \<exists>v. c = Constant v"
  unfolding BitwiseFunc_Compile_def Let_def
  by (auto split: sum.splits if_splits Op.splits)

lemma ArithFunc_Compile_IsConstant:
  "ArithFunc_Compile op args = Inr c \<Longrightarrow> \<exists>v. c = Constant v"
  unfolding ArithFunc_Compile_def
  by (auto split: sum.splits)

lemma library_on_bytes_IsConstant:
  "library_on_bytes lib args = Inr c \<Longrightarrow> \<exists>v. c = Constant v"
  unfolding library_on_bytes_def
  by (auto split: sum.splits)

lemma Function_Compile_IsConstant:
  assumes "Function_Compile fn ctx args = Inr c"
  shows "\<exists>v. c = Constant v"
proof (cases fn)
  case (EncodeFunc enc)
  with assms show ?thesis
    by (cases enc) (auto dest: library_on_bytes_IsConstant)
next
  case (DecodeFunc enc)
  with assms show ?thesis
    by (cases enc) (auto dest: library_on_bytes_IsConstant)
qed (use assms in \<open>auto simp: ArrayFunc_Compile_def PanicFunc_Compile_def unimplemented_def
      dest: SubscriptFunc_Compile_IsConstant GenerateSeriesFunc_Compile_IsConstant
      NegFunc_Compile_IsConstant CompareFunc_Compile_IsConstant BitwiseFunc_Compile_IsConstant
      ArithFunc_Compile_IsConstant library_on_bytes_IsConstant\<close>)

text \<open>
  \<^verbatim>\<open>Eval\<close> with the state passed through: the variable table lives in the compile context
  that the state points to, and \<^verbatim>\<open>SetVariable\<close> writes to it. The state itself is a pointer
  and may be \<^verbatim>\<open>nil\<close>. \<open>EvalArgs\<close> is the loop of \<^verbatim>\<open>RawFunction.Eval\<close> over its arguments.
\<close>

function Eval :: "Compiled \<Rightarrow> State option \<Rightarrow> (error + Value) \<times> State option"
  and EvalArgs :: "Compiled list \<Rightarrow> State option \<Rightarrow> (error + Value list) \<times> State option" where
  "Eval RowNum state =
     (case state of
        None \<Rightarrow> (Inl nilDeref, state)
      | Some s \<Rightarrow> (Inr (MakeInt64 (State_RowNum s)), state))"
| "Eval SubRowNum state =
     (case state of
        None \<Rightarrow> (Inl nilDeref, state)
      | Some s \<Rightarrow> (Inr (MakeInt64 (State_SubRowNum s)), state))"
| "Eval (Constant v) state = (Inr v, state)"
| "Eval (RawFunction fn args) state =
     (case EvalArgs args state of
        (Inl e, state') \<Rightarrow> (Inl e, state')
      | (Inr values, state') \<Rightarrow>
          (case state' of
             None \<Rightarrow> (Inl nilDeref, state')
           | Some s \<Rightarrow>
               (case Function_Compile fn (State_CompileCtx s) values of
                  Inl e \<Rightarrow> (Inl e, state')
                | Inr c \<Rightarrow> Eval c state')))"
| "Eval (GetVariable index) state =
     (case state of
        None \<Rightarrow> (Inl nilDeref, state)
      | Some s \<Rightarrow>
          (case State_CompileCtx s of
             None \<Rightarrow> (Inl nilDeref, state)
           | Some ctx \<Rightarrow>
               if index < length (Variables ctx)
               then (Inr (snd (Variables ctx ! index)), state)
               else (Inl (Panic ''index out of range''), state)))"
| "Eval (SetVariable index child) state =
     (case child of
        None \<Rightarrow> (Inl nilDeref, state)
      | Some c \<Rightarrow>
          (case Eval c state of
             (Inl e, state') \<Rightarrow> (Inl e, state')
           | (Inr v, state') \<Rightarrow>
               (case state' of
                  None \<Rightarrow> (Inl nilDeref, state')
                | Some s \<Rightarrow>
                    (case State_CompileCtx s of
                       None \<Rightarrow> (Inl nilDeref, state')
                     | Some ctx \<Rightarrow>
                         if index < length (Variables ctx)
                         then (Inr v,
                               Some (s\<lparr>State_CompileCtx := Some (ctx\<lparr>Variables :=
                                 (Variables ctx)[index := (fst (Variables ctx ! index), v)]\<rparr>)\<rparr>))
                         else (Inl (Panic ''index out of range''), state')))))"
| "Eval (CaseValueWhen val whens els) state = (CaseValueWhen_Eval (CaseValueWhen val whens els), state)"
| "Eval (RandRegex r) state = (unimplemented, state)"
| "Eval RandUniformU64 state = (unimplemented, state)"
| "Eval RandUniformI64 state = (unimplemented, state)"
| "Eval RandUniformF64 state = (unimplemented, state)"
| "Eval RandZipf state = (unimplemented, state)"
| "Eval RandLogNormal state = (unimplemented, state)"
| "Eval RandBool state = (unimplemented, state)"
| "Eval RandFinite32 state = (unimplemented, state)"
| "Eval RandFinite64 state = (unimplemented, state)"
| "Eval RandU31Timestamp state = (unimplemented, state)"
| "Eval RandShuffle state = (unimplemented, state)"
| "Eval RandUuid state = (unimplemented, state)"
| "EvalArgs [] state = (Inr [], state)"
| "EvalArgs (arg # args) state =
     (case Eval arg state of
        (Inl e, state') \<Rightarrow> (Inl e, state')
      | (Inr v, state') \<Rightarrow>
          (case EvalArgs args state' of
             (Inl e, state'') \<Rightarrow> (Inl e, state'')
           | (Inr vs, state'') \<Rightarrow> (Inr (v # vs), state'')))"
  by pat_completeness auto
termination
  by (relation "measure (\<lambda>x. case x of
          Inl (c, state) \<Rightarrow> 2 * size c + 1
        | Inr (args, state) \<Rightarrow> 2 * size_list size args + 2)")
    (auto dest: Function_Compile_IsConstant)

text \<open>\<^verbatim>\<open>Row.Eval\<close>: the values of a row, left to right, up to the first error.\<close>

fun Row_Eval :: "Compiled list \<Rightarrow> State option \<Rightarrow> (error + Value list) \<times> State option" where
  "Row_Eval [] state = (Inr [], state)"
| "Row_Eval (compiled # r) state =
     (case Eval compiled state of
        (Inl e, state') \<Rightarrow> (Inl e, state')
      | (Inr v, state') \<Rightarrow>
          (case Row_Eval r state' of
             (Inl e, state'') \<Rightarrow> (Inl e, state'')
           | (Inr vs, state'') \<Rightarrow> (Inr (v # vs), state'')))"


section \<open>Properties of the values\<close>

subsection \<open>The 64-bit fast path of the arithmetic\<close>

lemma sint64_bounds: "- (2 ^ 63) \<le> sint (a :: int64)" "sint (a :: int64) < 2 ^ 63"
  using sint_ge [of a] sint_lt [of a] by simp_all

text \<open>
  \<^verbatim>\<open>Add\<close> on two 64-bit integers is the exact sum in normal form: the sign test finds
  every overflow, and the big-integer path then returns a value outside the 64-bit range.
\<close>

lemma Add_int64_exact:
  "Add (int64Val a) (int64Val b) = Inr (MakeInt (sint a + sint b))"
proof -
  have s: "sint (a + b) = signed_take_bit 63 (sint a + sint b)"
    by (simp add: sint_word_ariths)
  show ?thesis
  proof (cases "big_IsInt64 (sint a + sint b)")
    case True
    then have eq: "sint (a + b) = sint a + sint b"
      unfolding s big_IsInt64_def MinInt64_def MaxInt64_def
      by (intro signed_take_bit_int_eq_self) auto
    show ?thesis using True eq
      by (auto simp: Add_def add_fast_def MakeInt_def big_Int64_def wrapBinary_def Let_def)
  next
    case False
    then consider "2 ^ 63 \<le> sint a + sint b" | "sint a + sint b < - (2 ^ 63)"
      unfolding big_IsInt64_def MinInt64_def MaxInt64_def by linarith
    then have ne: "(sint (a + b) > sint a) \<noteq> (sint b > 0)"
    proof cases
      case 1
      from signed_take_bit_int_less_eq [OF 1] have "sint (a + b) \<le> sint a + sint b - 2 ^ 64"
        unfolding s by simp
      then show ?thesis using 1 sint64_bounds [of a] sint64_bounds [of b] by auto
    next
      case 2
      from signed_take_bit_int_greater_eq [OF 2] have "sint a + sint b + 2 ^ 64 \<le> sint (a + b)"
        unfolding s by simp
      then show ?thesis using 2 sint64_bounds [of a] sint64_bounds [of b] by auto
    qed
    show ?thesis using False ne
      by (auto simp: Add_def add_fast_def MakeInt_def big_Int64_def wrapBinary_def Let_def)
  qed
qed

text \<open>
  Claim C1: for 64-bit integers \<open>a\<close> and \<open>b\<close>, \<^verbatim>\<open>Add\<close>, \<^verbatim>\<open>Sub\<close> and \<^verbatim>\<open>Mul\<close> return
  the exact sum, difference and product, in the fast form whenever the result fits in 64
  bits. \<^verbatim>\<open>Add\<close> does (lemma \<open>Add_int64_exact\<close>). The fast path of \<^verbatim>\<open>Sub\<close> computes
  \<^verbatim>\<open>int64(a) + b\<close>: at \<open>a = 2\<^sup>6\<^sup>3 - 1\<close>, \<open>b = 1\<close> the wrapped sum \<open>-2\<^sup>6\<^sup>3\<close> passes
  its test and is returned where the difference is \<open>2\<^sup>6\<^sup>3 - 2\<close>; at \<open>a = 3\<close>, \<open>b = 1\<close>
  the test fails and the big-integer path returns 2 in the big form. The test of \<^verbatim>\<open>Mul\<close>
  treats 0 and 1 specially but not \<open>-1\<close>: at \<open>a = -1\<close>, \<open>b = -2\<^sup>6\<^sup>3\<close> the quotient of the
  wrapped product by \<open>a\<close> wraps back to \<open>b\<close>, and \<open>-2\<^sup>6\<^sup>3\<close> is returned where the
  product is \<open>2\<^sup>6\<^sup>3\<close>.
\<close>

theorem C1_fast_path_Sub_Mul:
  "Sub (MakeInt64 9223372036854775807) (MakeInt64 1) = Inr (int64Val (- 9223372036854775808))
   \<and> MakeInt (9223372036854775807 - 1) = int64Val 9223372036854775806
   \<and> Sub (MakeInt64 3) (MakeInt64 1) = Inr (intVal 2)
   \<and> MakeInt (3 - 1) = int64Val 2
   \<and> Mul (MakeInt64 (- 1)) (MakeInt64 (- 9223372036854775808))
       = Inr (int64Val (- 9223372036854775808))
   \<and> MakeInt ((- 1) * (- 9223372036854775808)) = intVal 9223372036854775808"
  by (simp add: Sub_def Mul_def sub_fast_def mul_fast_def MakeInt64_def MakeInt_def
      big_IsInt64_def MinInt64_def MaxInt64_def big_Int64_def wrapBinary_def quo64_def Let_def
      signed_divide_int_def)

subsection \<open>Arrays\<close>


section \<open>Properties of qualified names\<close>






lemma lower_byte_fix [simp]:
  "lower_byte (CHR 0x22) = CHR 0x22" "lower_byte (CHR 0x60) = CHR 0x60"
  "lower_byte (CHR 0x27) = CHR 0x27" "lower_byte (CHR ''['') = CHR ''[''"
  by (simp_all add: lower_byte_def lower_table_def)









text \<open>The scenario of the specification: three parts in three quoting styles.\<close>

lemma UniqueName_scenario:
  "UniqueName (NewQName [[CHR 0x22] @ ''d'' @ [CHR 0x22, CHR 0x22] @ ''b'' @ [CHR 0x22],
       ''[schema]'', [CHR 0x60] @ ''ta'' @ [CHR 0x60, CHR 0x60] @ ''ble'' @ [CHR 0x60]])
     = ''d'' @ [CHR 0x22] @ ''b.schema.ta'' @ [CHR 0x60] @ ''ble''"
  by code_simp

section \<open>Properties of compilation and evaluation\<close>

definition ctx0 :: CompileContext where
  "ctx0 = \<lparr>TimeZone = ''UTC'', CurrentTimestamp = 0, Variables = []\<rparr>"

subsection \<open>Assignment to a variable\<close>

text \<open>
  Evaluating a \<^verbatim>\<open>SetVariable\<close> node that has a child evaluates the child, stores the value
  in the slot of the variable and returns it.
\<close>

lemma Eval_SetVariable_child:
  assumes "Eval c (Some s) = (Inr v, Some s')" "State_CompileCtx s' = Some ctx"
    "index < length (Variables ctx)"
  shows "Eval (SetVariable index (Some c)) (Some s) =
     (Inr v, Some (s'\<lparr>State_CompileCtx := Some (ctx\<lparr>Variables :=
         (Variables ctx)[index := (fst (Variables ctx ! index), v)]\<rparr>)\<rparr>))"
  using assms by simp

text \<open>
  Claim C2: compiling \<^verbatim>\<open>@x := e\<close> yields a \<^verbatim>\<open>SetVariable\<close> node with the index of
  \<^verbatim>\<open>x\<close> and the compiled \<^verbatim>\<open>e\<close>, and evaluating the node evaluates the child, writes the
  slot and returns the value. The compiler returns \<^verbatim>\<open>&SetVariable{Index: index}\<close>: the
  index is there, the expression \<^verbatim>\<open>e\<close> is never compiled and the field \<^verbatim>\<open>Value\<close> stays
  \<^verbatim>\<open>nil\<close>, so evaluating the node calls a method on a nil interface and panics.
\<close>

theorem C2_SetVariable_child_dropped:
  "CompileExpr ctx (template_SetVariable name e)
     = (Inr (SetVariable (fst (variableIndex ctx name)) None), snd (variableIndex ctx name))
   \<and> CompileExpr ctx0 (template_SetVariable ''x'' (template_Constant (MakeInt64 1)))
     = (Inr (SetVariable 0 None), ctx0\<lparr>Variables := [(''x'', Null)]\<rparr>)
   \<and> Eval (SetVariable index None) state = (Inl nilDeref, state)"
  by (simp add: split_beta variableIndex_def ctx0_def)

subsection \<open>CASE on constants\<close>

text \<open>
  When the value, the conditions, the results and the else-branch of a \<^verbatim>\<open>CASE\<close> are all
  constants, the compiler calls \<^verbatim>\<open>CaseValueWhen.Eval\<close>, which is
  \<^verbatim>\<open>panic("unimplemented")\<close>.
\<close>

lemma finishCaseValueWhen_constants:
  assumes "IsConstant val" "list_all (\<lambda>w. IsConstant (fst w) \<and> IsConstant (snd w)) whens"
    "IsConstant els"
  shows "finishCaseValueWhen val whens els = Inl (Panic ''unimplemented'')"
  using assms by (simp add: finishCaseValueWhen_def CaseValueWhen_Eval_def)

text \<open>
  Claim C3: a \<^verbatim>\<open>CASE\<close> whose parts all compile to constants is evaluated once by the
  compiler and collapsed to a constant, without error or panic; the expression
  \<^verbatim>\<open>case 2 when 1 then 'a' when 2 then 'b' else 'c' end\<close> gives the bytes \<^verbatim>\<open>b\<close>. On the
  code, compiling that expression panics.
\<close>

theorem C3_constant_CASE_panics:
  "CompileExpr ctx (template_CaseValueWhen (Some (template_Constant (MakeInt64 2)))
     [(template_Constant (MakeInt64 1), template_Constant (MakeBytes ''a'')),
      (template_Constant (MakeInt64 2), template_Constant (MakeBytes ''b''))]
     (Some (template_Constant (MakeBytes ''c''))))
   = (Inl (Panic ''unimplemented''), ctx)"
  by (simp add: finishCaseValueWhen_def CaseValueWhen_Eval_def)

subsection \<open>Array construction and subscripts\<close>


text \<open>
  The nil element is not treated as a null by the comparison, and an array of it is not an
  array of \<^verbatim>\<open>Null\<close>.
\<close>

lemma Cmp_nil_element:
  "Cmp NilValue (MakeInt64 1) = Inl (CompareError NilValue (MakeInt64 1))"
  "Cmp Null (MakeInt64 1) = Inr (0, True)"
  by (simp_all add: Cmp.simps(1) Null_def MakeInt64_def wrapCompare_def)

text \<open>
  Claim C10: a subscript is 1-based and total on integer indices. For an array \<open>a\<close> (a Go
  slice, so of a length that fits in 64 bits) and an index of integer kind with value \<open>n\<close>,
  the result is the \<open>n\<close>-th element when \<open>1 \<le> n \<le> length a\<close> and \<^verbatim>\<open>Null\<close> otherwise
  (also when \<open>n\<close> does not fit in 64 bits); an index of another kind \<open>k\<close> is the error
  \<^verbatim>\<open>subscript must be an integer\<close>; a base that is not an array is a conversion error.
\<close>

theorem C10_Subscript:
  "(int (length a) \<le> MaxInt64 \<and> AsInt i = Inr n \<longrightarrow>
      Function_Compile SubscriptFunc ctx [arrayVal a, i]
        = Inr (Constant (if 1 \<le> n \<and> n \<le> int (length a) then a ! nat (n - 1) else Null)))
   \<and> (KindOf i = Some k \<and> k \<noteq> KindInt \<longrightarrow>
      Function_Compile SubscriptFunc ctx [arrayVal a, i]
        = Inl (Errorf ''subscript must be an integer, got %s'' [ArgKind k]))
   \<and> ((\<forall>xs. b \<noteq> arrayVal xs) \<longrightarrow>
      Function_Compile SubscriptFunc ctx [b, i] = Inl (ConvertError b ''[]Value''))"
proof (intro conjI impI)
  assume h: "int (length a) \<le> MaxInt64 \<and> AsInt i = Inr n"
  show "Function_Compile SubscriptFunc ctx [arrayVal a, i]
        = Inr (Constant (if 1 \<le> n \<and> n \<le> int (length a) then a ! nat (n - 1) else Null))"
  proof (cases i)
    case (intVal m)
    with h have m: "m = n" by simp
    show ?thesis
    proof (cases "big_IsInt64 n")
      case True
      then have "sint (word_of_int n :: int64) = n"
        unfolding big_IsInt64_def MinInt64_def MaxInt64_def
        by (simp add: sint_sbintrunc' signed_take_bit_int_eq_self)
      with True show ?thesis
        by (auto simp: SubscriptFunc_Compile_def arg_at_def intVal m big_Int64_def)
    next
      case False
      with h show ?thesis
        by (auto simp: SubscriptFunc_Compile_def arg_at_def intVal m big_IsInt64_def
            MinInt64_def MaxInt64_def)
    qed
  next
    case (int64Val w)
    with h have "sint w = n" by simp
    then show ?thesis
      by (auto simp: SubscriptFunc_Compile_def arg_at_def int64Val)
  qed (use h in auto)
next
  assume "KindOf i = Some k \<and> k \<noteq> KindInt"
  then show "Function_Compile SubscriptFunc ctx [arrayVal a, i]
        = Inl (Errorf ''subscript must be an integer, got %s'' [ArgKind k])"
    by (auto simp: SubscriptFunc_Compile_def arg_at_def)
next
  assume "\<forall>xs. b \<noteq> arrayVal xs"
  then show "Function_Compile SubscriptFunc ctx [b, i] = Inl (ConvertError b ''[]Value'')"
    by (cases b) (auto simp: SubscriptFunc_Compile_def arg_at_def)
qed

theorem C10_witness:
  "Function_Compile SubscriptFunc None
       [arrayVal [MakeInt64 10, MakeInt64 20, MakeInt64 30], MakeInt64 2]
     = Inr (Constant (MakeInt64 20))
   \<and> Function_Compile SubscriptFunc None
       [arrayVal [MakeInt64 10, MakeInt64 20, MakeInt64 30], MakeInt64 0]
     = Inr (Constant Null)
   \<and> Function_Compile SubscriptFunc None
       [arrayVal [MakeInt64 10, MakeInt64 20, MakeInt64 30], MakeInt64 4]
     = Inr (Constant Null)
   \<and> Function_Compile SubscriptFunc None
       [arrayVal [MakeInt64 10, MakeInt64 20, MakeInt64 30], intVal 18446744073709551616]
     = Inr (Constant Null)
   \<and> Function_Compile SubscriptFunc None
       [arrayVal [MakeInt64 10, MakeInt64 20, MakeInt64 30], MakeBool True]
     = Inl (Errorf ''subscript must be an integer, got %s'' [ArgKind KindBool])
   \<and> Function_Compile SubscriptFunc None [MakeInt64 5, MakeInt64 1]
     = Inl (ConvertError (MakeInt64 5) ''[]Value'')"
proof -
  let ?a = "[MakeInt64 10, MakeInt64 20, MakeInt64 30]"
  have len: "int (length ?a) \<le> MaxInt64" by (simp add: MaxInt64_def)
  have 1: "Function_Compile SubscriptFunc None [arrayVal ?a, MakeInt64 2]
      = Inr (Constant (MakeInt64 20))"
    using C10_Subscript [of ?a "MakeInt64 2" 2 None KindInt Null] len
    by (simp add: MakeInt64_def)
  have 2: "Function_Compile SubscriptFunc None [arrayVal ?a, MakeInt64 0]
      = Inr (Constant Null)"
    using C10_Subscript [of ?a "MakeInt64 0" 0 None KindInt Null] len
    by (simp add: MakeInt64_def)
  have 3: "Function_Compile SubscriptFunc None [arrayVal ?a, MakeInt64 4]
      = Inr (Constant Null)"
    using C10_Subscript [of ?a "MakeInt64 4" 4 None KindInt Null] len
    by (simp add: MakeInt64_def)
  have 4: "Function_Compile SubscriptFunc None [arrayVal ?a, intVal 18446744073709551616]
      = Inr (Constant Null)"
    using C10_Subscript [of ?a "intVal 18446744073709551616" 18446744073709551616 None KindInt Null]
      len by simp
  have 5: "Function_Compile SubscriptFunc None [arrayVal ?a, MakeBool True]
      = Inl (Errorf ''subscript must be an integer, got %s'' [ArgKind KindBool])"
    using C10_Subscript [of ?a "MakeBool True" 0 None KindBool Null]
    by (simp add: MakeBool_def)
  have 6: "Function_Compile SubscriptFunc None [MakeInt64 5, MakeInt64 1]
      = Inl (ConvertError (MakeInt64 5) ''[]Value'')"
    using C10_Subscript [of ?a "MakeInt64 1" 1 None KindInt "MakeInt64 5"]
    by (simp add: MakeInt64_def)
  show ?thesis using 1 2 3 4 5 6 by blast
qed

end
